theory Spec2Isabelle
  imports Main "HOL-Library.Char_ord" "HOL-Library.List_Lexorder" "HOL-Library.Sublist"
begin

section \<open>Python values used by the task tracker\<close>

text \<open>
  The store of \<^verbatim>\<open>task_cli.py\<close> is a Python dict \<^verbatim>\<open>self.tasks\<close>. The annotation
  says \<^verbatim>\<open>Dict[int, Dict]\<close>, but Python does not enforce it: \<^verbatim>\<open>add_task\<close> inserts
  \<^verbatim>\<open>int\<close> keys, while \<^verbatim>\<open>json.load\<close> produces \<^verbatim>\<open>str\<close> keys. A key is therefore
  either an integer or a string, and \<^verbatim>\<open>1\<close> and \<^verbatim>\<open>"1"\<close> are different keys.
\<close>

datatype key = KInt int | KStr string

datatype error = TypeError

text \<open>
  A task is the five-field dict built by \<^verbatim>\<open>add_task\<close>. The timestamps are the
  strings returned by \<^verbatim>\<open>datetime.now().isoformat()\<close>.
\<close>

record task =
  id_field :: int
  description :: string
  status :: string
  createdAt :: string
  updatedAt :: string

subsection \<open>Insertion-ordered dicts\<close>

text \<open>
  A Python dict keeps insertion order and has no duplicate keys; it is modelled as an
  association list with distinct keys. \<open>dict_contains\<close> is \<^verbatim>\<open>k in d\<close>,
  \<open>dict_set\<close> is \<^verbatim>\<open>d[k] = v\<close> (overwrite in place, or append a new key),
  \<open>dict_del\<close> is \<^verbatim>\<open>del d[k]\<close> and \<open>dict_modify\<close> is an in-place change of the
  value stored under \<open>k\<close>, as in \<^verbatim>\<open>d[k]["f"] = x\<close>.
\<close>

fun dict_contains :: "'k \<Rightarrow> ('k \<times> 'v) list \<Rightarrow> bool" where
  "dict_contains k [] = False"
| "dict_contains k (p # d) = (if fst p = k then True else dict_contains k d)"

fun dict_get :: "'k \<Rightarrow> ('k \<times> 'v) list \<Rightarrow> 'v option" where
  "dict_get k [] = None"
| "dict_get k (p # d) = (if fst p = k then Some (snd p) else dict_get k d)"

fun dict_set :: "'k \<Rightarrow> 'v \<Rightarrow> ('k \<times> 'v) list \<Rightarrow> ('k \<times> 'v) list" where
  "dict_set k v [] = [(k, v)]"
| "dict_set k v (p # d) = (if fst p = k then (k, v) # d else p # dict_set k v d)"

fun dict_del :: "'k \<Rightarrow> ('k \<times> 'v) list \<Rightarrow> ('k \<times> 'v) list" where
  "dict_del k [] = []"
| "dict_del k (p # d) = (if fst p = k then dict_del k d else p # dict_del k d)"

fun dict_modify :: "'k \<Rightarrow> ('v \<Rightarrow> 'v) \<Rightarrow> ('k \<times> 'v) list \<Rightarrow> ('k \<times> 'v) list" where
  "dict_modify k f [] = []"
| "dict_modify k f (p # d) =
     (if fst p = k then (fst p, f (snd p)) # d else p # dict_modify k f d)"

definition dict_keys :: "('k \<times> 'v) list \<Rightarrow> 'k list" where
  "dict_keys d = map fst d"

definition dict_values :: "('k \<times> 'v) list \<Rightarrow> 'v list" where
  "dict_values d = map snd d"

subsection \<open>Comparison, \<^verbatim>\<open>max\<close> and \<^verbatim>\<open>+ 1\<close> on keys\<close>

text \<open>
  \<^verbatim>\<open>a > b\<close>: integers compare numerically, strings lexicographically by code
  point, and an integer against a string raises \<^verbatim>\<open>TypeError\<close>.
\<close>

fun py_gt :: "key \<Rightarrow> key \<Rightarrow> error + bool" where
  "py_gt (KInt a) (KInt b) = Inr (b < a)"
| "py_gt (KStr a) (KStr b) = Inr (b < a)"
| "py_gt (KInt a) (KStr b) = Inl TypeError"
| "py_gt (KStr a) (KInt b) = Inl TypeError"

text \<open>
  \<^verbatim>\<open>max(iterable, default=d)\<close>: the default when the iterable is empty, otherwise
  a left-to-right scan that replaces the running maximum by every strictly greater item.
\<close>

fun max_scan :: "key \<Rightarrow> key list \<Rightarrow> error + key" where
  "max_scan m [] = Inr m"
| "max_scan m (k # ks) =
     (case py_gt k m of
        Inl e \<Rightarrow> Inl e
      | Inr b \<Rightarrow> max_scan (if b then k else m) ks)"

fun py_max :: "key list \<Rightarrow> key \<Rightarrow> error + key" where
  "py_max [] d = Inr d"
| "py_max (k # ks) d = max_scan k ks"

text \<open>\<^verbatim>\<open>x + 1\<close>: integer addition, and \<^verbatim>\<open>TypeError\<close> for a string operand.\<close>

fun py_add_one :: "key \<Rightarrow> error + int" where
  "py_add_one (KInt n) = Inr (n + 1)"
| "py_add_one (KStr s) = Inl TypeError"

subsection \<open>The JSON library\<close>

text \<open>
  \<^verbatim>\<open>str(n)\<close> for an integer: its decimal digits, with a leading minus sign for a
  negative number.
\<close>

definition digit_char :: "nat \<Rightarrow> char" where
  "digit_char n = ''0123456789'' ! n"

function str_nat :: "nat \<Rightarrow> string" where
  "str_nat n = (if n < 10 then [digit_char n] else str_nat (n div 10) @ [digit_char (n mod 10)])"
  by pat_completeness auto
termination
  by (relation "measure (\<lambda>n. n)") auto

definition str_int :: "int \<Rightarrow> string" where
  "str_int i = (if i < 0 then CHR ''-'' # str_nat (nat (- i)) else str_nat (nat i))"

text \<open>
  The file holds one JSON object whose members are the tasks. The model keeps the
  document as the ordered list of its members and leaves the textual encoding to the
  library. What matters here is the library's treatment of keys: \<^verbatim>\<open>json.dump\<close>
  writes an \<^verbatim>\<open>int\<close> key as the string of its digits, and \<^verbatim>\<open>json.load\<close> returns
  every member name as a \<^verbatim>\<open>str\<close>, a repeated name keeping its last value.
  A file that is not valid JSON is \<open>Garbage\<close>. Valid JSON of another shape (a
  list, a number, members that are not task objects) is not represented: the files
  considered are the ones \<^verbatim>\<open>save_tasks\<close> writes.
\<close>

datatype file_content = Garbage | Doc "(string \<times> task) list"

fun key_str :: "key \<Rightarrow> string" where
  "key_str (KInt i) = str_int i"
| "key_str (KStr s) = s"

definition json_dump :: "(key \<times> task) list \<Rightarrow> file_content" where
  "json_dump d = Doc (map (\<lambda>p. (key_str (fst p), snd p)) d)"

fun json_object :: "(string \<times> task) list \<Rightarrow> (key \<times> task) list \<Rightarrow> (key \<times> task) list" where
  "json_object [] d = d"
| "json_object (m # ms) d = json_object ms (dict_set (KStr (fst m)) (snd m) d)"

fun json_load :: "file_content \<Rightarrow> (key \<times> task) list option" where
  "json_load Garbage = None"
| "json_load (Doc ms) = Some (json_object ms [])"

section \<open>TaskTracker\<close>

text \<open>
  The state is the dict \<^verbatim>\<open>self.tasks\<close> together with the file \<^verbatim>\<open>tasks.json\<close>
  (\<open>None\<close> when it does not exist) and the number of times the file has been opened
  for writing.
\<close>

record tracker =
  tasks :: "(key \<times> task) list"
  tasks_file :: "file_content option"
  writes :: nat

definition load_tasks :: "tracker \<Rightarrow> tracker" where
  "load_tasks w =
     (case tasks_file w of
        Some f \<Rightarrow>
          (case json_load f of
             Some d \<Rightarrow> w\<lparr>tasks := d\<rparr>
           | None \<Rightarrow> w\<lparr>tasks := []\<rparr>)
      | None \<Rightarrow> w\<lparr>tasks := []\<rparr>)"

text \<open>\<^verbatim>\<open>TaskTracker()\<close> on a given file system.\<close>

definition init :: "file_content option \<Rightarrow> tracker" where
  "init f = load_tasks \<lparr>tasks = [], tasks_file = f, writes = 0\<rparr>"

definition save_tasks :: "tracker \<Rightarrow> tracker" where
  "save_tasks w = w\<lparr>tasks_file := Some (json_dump (tasks w)), writes := writes w + 1\<rparr>"

definition get_next_id :: "tracker \<Rightarrow> error + int" where
  "get_next_id w =
     (case py_max (dict_keys (tasks w)) (KInt 0) of
        Inl e \<Rightarrow> Inl e
      | Inr m \<Rightarrow> py_add_one m)"

text \<open>
  The operations take the string \<open>now\<close> that \<^verbatim>\<open>datetime.now().isoformat()\<close>
  returns during the call. \<^verbatim>\<open>task_id\<close> is whatever value the caller passes; the
  command line passes an \<^verbatim>\<open>int\<close>.
\<close>

definition add_task :: "string \<Rightarrow> string \<Rightarrow> tracker \<Rightarrow> error + (int \<times> tracker)" where
  "add_task descr now w =
     (case get_next_id w of
        Inl e \<Rightarrow> Inl e
      | Inr task_id \<Rightarrow>
          Inr (task_id,
               save_tasks (w\<lparr>tasks :=
                 dict_set (KInt task_id)
                   \<lparr>id_field = task_id, description = descr, status = ''todo'',
                    createdAt = now, updatedAt = now\<rparr>
                   (tasks w)\<rparr>)))"

definition update_task :: "key \<Rightarrow> string \<Rightarrow> string \<Rightarrow> tracker \<Rightarrow> bool \<times> tracker" where
  "update_task task_id descr now w =
     (if \<not> dict_contains task_id (tasks w) then (False, w)
      else (True,
            save_tasks (w\<lparr>tasks :=
              dict_modify task_id (\<lambda>t. t\<lparr>updatedAt := now\<rparr>)
                (dict_modify task_id (\<lambda>t. t\<lparr>description := descr\<rparr>) (tasks w))\<rparr>)))"

definition delete_task :: "key \<Rightarrow> tracker \<Rightarrow> bool \<times> tracker" where
  "delete_task task_id w =
     (if \<not> dict_contains task_id (tasks w) then (False, w)
      else (True, save_tasks (w\<lparr>tasks := dict_del task_id (tasks w)\<rparr>)))"

definition mark_task_status :: "key \<Rightarrow> string \<Rightarrow> string \<Rightarrow> tracker \<Rightarrow> bool \<times> tracker" where
  "mark_task_status task_id st now w =
     (if \<not> dict_contains task_id (tasks w) \<or> \<not> List.member [''todo'', ''in-progress'', ''done''] st
      then (False, w)
      else (True,
            save_tasks (w\<lparr>tasks :=
              dict_modify task_id (\<lambda>t. t\<lparr>updatedAt := now\<rparr>)
                (dict_modify task_id (\<lambda>t. t\<lparr>status := st\<rparr>) (tasks w))\<rparr>)))"

definition list_tasks :: "string option \<Rightarrow> tracker \<Rightarrow> task list" where
  "list_tasks st w =
     (case st of
        None \<Rightarrow> dict_values (tasks w)
      | Some s \<Rightarrow> filter (\<lambda>t. status t = s) (dict_values (tasks w)))"

section \<open>Sequences of calls\<close>

text \<open>
  A client that calls \<^verbatim>\<open>add_task\<close> and \<^verbatim>\<open>delete_task\<close> in some order on one
  tracker object. \<open>run\<close> collects the ids that the \<^verbatim>\<open>add_task\<close> calls return and
  stops at the first exception.
\<close>

datatype op = Add string string | Delete key

fun run :: "op list \<Rightarrow> tracker \<Rightarrow> error + (int list \<times> tracker)" where
  "run [] w = Inr ([], w)"
| "run (Add descr now # ops) w =
     (case add_task descr now w of
        Inl e \<Rightarrow> Inl e
      | Inr r \<Rightarrow>
          (case run ops (snd r) of
             Inl e \<Rightarrow> Inl e
           | Inr rs \<Rightarrow> Inr (fst r # fst rs, snd rs)))"
| "run (Delete k # ops) w = run ops (snd (delete_task k w))"

definition returned_ids :: "op list \<Rightarrow> tracker \<Rightarrow> int list option" where
  "returned_ids ops w = (case run ops w of Inl e \<Rightarrow> None | Inr rs \<Rightarrow> Some (fst rs))"

fun count_adds :: "op list \<Rightarrow> nat" where
  "count_adds [] = 0"
| "count_adds (Add descr now # ops) = Suc (count_adds ops)"
| "count_adds (Delete k # ops) = count_adds ops"

fun increasing_by_one :: "int list \<Rightarrow> bool" where
  "increasing_by_one [] = True"
| "increasing_by_one [x] = True"
| "increasing_by_one (x # y # zs) = (y = x + 1 \<and> increasing_by_one (y # zs))"

text \<open>
  Auxiliary notions for the statements below: a store whose keys are all integers, the
  largest key as \<^verbatim>\<open>max\<close> computes it, a call sequence in which no
  \<^verbatim>\<open>delete_task\<close> removes the task under the largest key, and the list
  \<open>n, n + 1, \<dots>\<close> of a given length.
\<close>

fun is_int_key :: "key \<Rightarrow> bool" where
  "is_int_key (KInt i) = True"
| "is_int_key (KStr s) = False"

definition int_keys :: "(key \<times> task) list \<Rightarrow> bool" where
  "int_keys d = list_all is_int_key (dict_keys d)"

definition largest_key :: "key \<Rightarrow> tracker \<Rightarrow> bool" where
  "largest_key k w = (dict_contains k (tasks w) \<and> py_max (dict_keys (tasks w)) (KInt 0) = Inr k)"

fun keeps_largest :: "op list \<Rightarrow> tracker \<Rightarrow> bool" where
  "keeps_largest [] w = True"
| "keeps_largest (Add descr now # ops) w =
     (case add_task descr now w of
        Inl e \<Rightarrow> True
      | Inr r \<Rightarrow> keeps_largest ops (snd r))"
| "keeps_largest (Delete k # ops) w =
     (if largest_key k w then False else keeps_largest ops (snd (delete_task k w)))"

fun count_from :: "int \<Rightarrow> nat \<Rightarrow> int list" where
  "count_from n 0 = []"
| "count_from n (Suc k) = n # count_from (n + 1) k"

fun key_int :: "key \<Rightarrow> int" where
  "key_int (KInt i) = i"
| "key_int (KStr s) = 0"

definition top_id :: "(key \<times> task) list \<Rightarrow> int" where
  "top_id d = (if d = [] then 0 else Max (set (map key_int (dict_keys d))))"

section \<open>Notions used in the statements\<close>

text \<open>The invariant of the data model: every key is the integer in its task's \<^verbatim>\<open>id\<close> field.\<close>

fun keys_match_ids :: "(key \<times> task) list \<Rightarrow> bool" where
  "keys_match_ids [] = True"
| "keys_match_ids (p # d) = (if fst p = KInt (id_field (snd p)) then keys_match_ids d else False)"

fun is_str_key :: "key \<Rightarrow> bool" where
  "is_str_key (KInt i) = False"
| "is_str_key (KStr s) = True"

text \<open>A new process: a fresh \<^verbatim>\<open>TaskTracker()\<close> on the file the old one left behind.\<close>

definition restart :: "tracker \<Rightarrow> tracker" where
  "restart w = init (tasks_file w)"

text \<open>
  Two concrete trackers: the state after \<^verbatim>\<open>add_task("buy milk")\<close> on an empty
  directory, and the state after a following \<^verbatim>\<open>add_task("walk dog")\<close>.
\<close>

definition milk :: task where
  "milk = \<lparr>id_field = 1, description = ''buy milk'', status = ''todo'',
           createdAt = ''2024-05-01T09:00:00'', updatedAt = ''2024-05-01T09:00:00''\<rparr>"

definition dog :: task where
  "dog = \<lparr>id_field = 2, description = ''walk dog'', status = ''todo'',
          createdAt = ''2024-05-01T09:05:00'', updatedAt = ''2024-05-01T09:05:00''\<rparr>"

definition one_task :: tracker where
  "one_task = \<lparr>tasks = [(KInt 1, milk)], tasks_file = Some (Doc [(''1'', milk)]), writes = 1\<rparr>"

definition two_tasks :: tracker where
  "two_tasks = \<lparr>tasks = [(KInt 1, milk), (KInt 2, dog)],
                tasks_file = Some (Doc [(''1'', milk), (''2'', dog)]), writes = 2\<rparr>"

section \<open>Properties\<close>

subsection \<open>Dicts\<close>

lemma dict_contains_iff: "dict_contains k d \<longleftrightarrow> k \<in> set (dict_keys d)"
  by (induction d) (auto simp: dict_keys_def)

lemma dict_del_absent: "\<not> dict_contains k d \<Longrightarrow> dict_del k d = d"
  by (induction d) auto

lemma dict_set_absent: "\<not> dict_contains k d \<Longrightarrow> dict_set k v d = d @ [(k, v)]"
  by (induction d) auto

lemma dict_keys_del: "dict_keys (dict_del k d) = filter (\<lambda>k'. k' \<noteq> k) (dict_keys d)"
  by (induction d) (auto simp: dict_keys_def)

lemma dict_get_None_iff: "dict_get k d = None \<longleftrightarrow> \<not> dict_contains k d"
  by (induction d) auto

lemma dict_get_modify:
  "dict_get k' (dict_modify k f d) = (if k' = k then map_option f (dict_get k d) else dict_get k' d)"
  by (induction d) auto

lemma dict_keys_modify: "dict_keys (dict_modify k f d) = dict_keys d"
  by (induction d) (auto simp: dict_keys_def)

lemma dict_contains_del: "dict_contains k' (dict_del k d) \<longleftrightarrow> k' \<noteq> k \<and> dict_contains k' d"
  by (induction d) auto

subsection \<open>The example trackers\<close>

lemmas run_defs = init_def load_tasks_def dict_keys_def add_task_def get_next_id_def
  save_tasks_def delete_task_def update_task_def mark_task_status_def json_dump_def
  str_int_def digit_char_def restart_def

lemma one_task_reached:
  "add_task ''buy milk'' ''2024-05-01T09:00:00'' (init None) = Inr (1, one_task)"
  by (simp add: run_defs one_task_def milk_def)

lemma two_tasks_reached:
  "add_task ''walk dog'' ''2024-05-01T09:05:00'' one_task = Inr (2, two_tasks)"
  by (simp add: run_defs one_task_def two_tasks_def milk_def dog_def)

subsection \<open>The next id on a store with integer keys\<close>

lemma int_keys_map: "list_all is_int_key ks \<Longrightarrow> ks = map KInt (map key_int ks)"
proof (induction ks)
  case Nil
  then show ?case by simp
next
  case (Cons k ks)
  then show ?case by (cases k) auto
qed

lemma Max_insert_max:
  fixes m x :: int
  assumes "finite S"
  shows "Max (insert (if m < x then x else m) S) = Max (insert m (insert x S))"
proof (cases "S = {}")
  case True
  then show ?thesis by (simp add: max_def)
next
  case False
  with assms have "Max (insert (if m < x then x else m) S) = max (if m < x then x else m) (Max S)"
    by (rule Max_insert)
  moreover from assms False have "Max (insert m (insert x S)) = max m (max x (Max S))"
    by simp
  ultimately show ?thesis by (simp add: max_def)
qed

lemma max_scan_ints: "max_scan (KInt m) (map KInt xs) = Inr (KInt (Max (set (m # xs))))"
proof (induction xs arbitrary: m)
  case Nil
  then show ?case by simp
next
  case (Cons x xs)
  have "max_scan (KInt m) (map KInt (x # xs)) = max_scan (KInt (if m < x then x else m)) (map KInt xs)"
    by simp
  also have "\<dots> = Inr (KInt (Max (set ((if m < x then x else m) # xs))))"
    by (rule Cons.IH)
  also have "Max (set ((if m < x then x else m) # xs)) = Max (set (m # x # xs))"
    using Max_insert_max [of "set xs" m x] by simp
  finally show ?case .
qed

lemma py_max_ints:
  assumes "int_keys d"
  shows "py_max (dict_keys d) (KInt 0) = Inr (KInt (top_id d))"
proof (cases d)
  case Nil
  then show ?thesis by (simp add: dict_keys_def top_id_def)
next
  case (Cons p d')
  from assms have "dict_keys d = map KInt (map key_int (dict_keys d))"
    unfolding int_keys_def by (rule int_keys_map)
  moreover obtain x xs where xs: "map key_int (dict_keys d) = x # xs"
    using Cons by (auto simp: dict_keys_def)
  ultimately have "py_max (dict_keys d) (KInt 0) = max_scan (KInt x) (map KInt xs)"
    by simp
  also have "\<dots> = Inr (KInt (Max (set (x # xs))))" by (rule max_scan_ints)
  finally show ?thesis using xs Cons by (simp add: top_id_def)
qed

lemma get_next_id_ints: "int_keys (tasks w) \<Longrightarrow> get_next_id w = Inr (top_id (tasks w) + 1)"
  by (simp add: get_next_id_def py_max_ints)

lemma top_id_bound:
  assumes "k \<in> set (dict_keys d)"
  shows "key_int k \<le> top_id d"
proof -
  from assms have "d \<noteq> []" by (auto simp: dict_keys_def)
  moreover have "key_int k \<le> Max (set (map key_int (dict_keys d)))"
    using assms by (intro Max_ge) auto
  ultimately show ?thesis by (simp add: top_id_def)
qed

lemma next_id_fresh: "int_keys d \<Longrightarrow> \<not> dict_contains (KInt (top_id d + 1)) d"
proof
  assume a: "int_keys d" "dict_contains (KInt (top_id d + 1)) d"
  then have "KInt (top_id d + 1) \<in> set (dict_keys d)" by (simp add: dict_contains_iff)
  from top_id_bound [OF this] show False by simp
qed

lemma top_id_append:
  assumes "int_keys d"
  shows "top_id (d @ [(KInt (top_id d + 1), t)]) = top_id d + 1"
proof (cases "d = []")
  case True
  then show ?thesis by (simp add: top_id_def dict_keys_def)
next
  case False
  let ?S = "set (map key_int (dict_keys d))"
  have ne: "?S \<noteq> {}" using False by (simp add: dict_keys_def)
  have "top_id (d @ [(KInt (top_id d + 1), t)]) = Max (insert (Max ?S + 1) ?S)"
    using False by (simp add: top_id_def dict_keys_def)
  also have "\<dots> = max (Max ?S + 1) (Max ?S)" using ne by simp
  finally show ?thesis using False by (simp add: top_id_def)
qed

lemma int_keys_append: "int_keys d \<Longrightarrow> int_keys (d @ [(KInt i, t)])"
  by (simp add: int_keys_def dict_keys_def)

lemma int_keys_del: "int_keys d \<Longrightarrow> int_keys (dict_del k d)"
  by (simp add: int_keys_def dict_keys_del list_all_iff)

lemma top_id_del:
  assumes "int_keys d" and "\<not> (dict_contains k d \<and> py_max (dict_keys d) (KInt 0) = Inr k)"
  shows "top_id (dict_del k d) = top_id d"
proof (cases "dict_contains k d")
  case False
  then show ?thesis by (simp add: dict_del_absent)
next
  case True
  with assms have kne: "k \<noteq> KInt (top_id d)" by (simp add: py_max_ints)
  from True have dne: "d \<noteq> []" by auto
  let ?S = "set (map key_int (dict_keys d))"
  have fin: "finite ?S" and ne: "?S \<noteq> {}" using dne by (simp_all add: dict_keys_def)
  have allint: "\<And>k'. k' \<in> set (dict_keys d) \<Longrightarrow> k' = KInt (key_int k')"
  proof -
    fix k' assume "k' \<in> set (dict_keys d)"
    with assms(1) have "is_int_key k'" by (simp add: int_keys_def list_all_iff)
    then show "k' = KInt (key_int k')" by (cases k') auto
  qed
  have "Max ?S \<in> ?S" using fin ne by (rule Max_in)
  then obtain km where km: "km \<in> set (dict_keys d)" "key_int km = Max ?S" by auto
  have "km = KInt (top_id d)" using allint [OF km(1)] km(2) dne by (simp add: top_id_def)
  with kne have "km \<noteq> k" by simp
  with km(1) have "km \<in> set (dict_keys (dict_del k d))" by (simp add: dict_keys_del)
  then have "key_int km \<in> set (map key_int (dict_keys (dict_del k d)))" by simp
  with km(2) have in': "Max ?S \<in> set (map key_int (dict_keys (dict_del k d)))" by simp
  then have dne': "dict_del k d \<noteq> []" by (auto simp: dict_keys_def)
  have sub: "set (map key_int (dict_keys (dict_del k d))) \<subseteq> ?S" by (auto simp: dict_keys_del)
  have "Max (set (map key_int (dict_keys (dict_del k d)))) = Max ?S"
  proof (rule Max_eqI)
    show "finite (set (map key_int (dict_keys (dict_del k d))))" by simp
    show "\<And>y. y \<in> set (map key_int (dict_keys (dict_del k d))) \<Longrightarrow> y \<le> Max ?S"
      using sub fin by (meson Max_ge subsetD)
    show "Max ?S \<in> set (map key_int (dict_keys (dict_del k d)))" by (rule in')
  qed
  then show ?thesis using dne dne' by (simp add: top_id_def)
qed

subsection \<open>Ids returned by a sequence of calls\<close>

lemma add_task_ints:
  assumes "int_keys (tasks w)"
  shows "add_task descr now w =
           Inr (top_id (tasks w) + 1,
                save_tasks (w\<lparr>tasks := tasks w @
                  [(KInt (top_id (tasks w) + 1),
                    \<lparr>id_field = top_id (tasks w) + 1, description = descr, status = ''todo'',
                     createdAt = now, updatedAt = now\<rparr>)]\<rparr>))"
  using assms by (simp add: add_task_def get_next_id_ints dict_set_absent next_id_fresh)

lemma tasks_save [simp]: "tasks (save_tasks w) = tasks w"
  by (simp add: save_tasks_def)

lemma tasks_delete_task: "tasks (snd (delete_task k w)) = dict_del k (tasks w)"
  by (simp add: delete_task_def dict_del_absent)

lemma increasing_count_from: "increasing_by_one (count_from n k)"
proof (induction k arbitrary: n)
  case 0
  then show ?case by simp
next
  case (Suc k)
  from Suc [of "n + 1"] show ?case by (cases k) (simp_all add: algebra_simps)
qed

lemma count_from_lower: "i \<in> set (count_from n k) \<Longrightarrow> n \<le> i"
  by (induction k arbitrary: n) force+

lemma distinct_count_from: "distinct (count_from n k)"
  by (induction k arbitrary: n) (auto dest: count_from_lower)

lemma length_count_from: "length (count_from n k) = k"
  by (induction k arbitrary: n) auto

lemma run_ids:
  assumes "int_keys (tasks w)" and "keeps_largest ops w"
  shows "returned_ids ops w = Some (count_from (top_id (tasks w) + 1) (count_adds ops))"
  using assms
proof (induction ops arbitrary: w)
  case Nil
  then show ?case by (simp add: returned_ids_def)
next
  case (Cons a ops)
  show ?case
  proof (cases a)
    case (Add descr now)
    let ?w' = "snd (top_id (tasks w) + 1,
                save_tasks (w\<lparr>tasks := tasks w @
                  [(KInt (top_id (tasks w) + 1),
                    \<lparr>id_field = top_id (tasks w) + 1, description = descr, status = ''todo'',
                     createdAt = now, updatedAt = now\<rparr>)]\<rparr>))"
    have add: "add_task descr now w = Inr (top_id (tasks w) + 1, ?w')"
      using add_task_ints [OF Cons.prems(1)] by simp
    have ik: "int_keys (tasks ?w')" using Cons.prems(1) by (simp add: int_keys_append)
    have kl: "keeps_largest ops ?w'" using Cons.prems(2) Add add by simp
    have top: "top_id (tasks ?w') = top_id (tasks w) + 1"
      using Cons.prems(1) by (simp add: top_id_append)
    from Cons.IH [OF ik kl] top
    have "returned_ids ops ?w' = Some (count_from (top_id (tasks w) + 1 + 1) (count_adds ops))"
      by simp
    then show ?thesis using Add add
      by (auto simp: returned_ids_def split: sum.splits)
  next
    case (Delete k)
    let ?w' = "snd (delete_task k w)"
    from Cons.prems(2) Delete have nl: "\<not> largest_key k w" and kl: "keeps_largest ops ?w'"
      by (simp_all split: if_splits)
    have ik: "int_keys (tasks ?w')" using Cons.prems(1) by (simp add: tasks_delete_task int_keys_del)
    have top: "top_id (tasks ?w') = top_id (tasks w)"
      using Cons.prems(1) nl by (simp add: tasks_delete_task top_id_del largest_key_def)
    from Cons.IH [OF ik kl] top show ?thesis using Delete
      by (simp add: returned_ids_def)
  qed
qed

text \<open>
  C1, as stated: for every sequence of \<^verbatim>\<open>add_task\<close> and \<^verbatim>\<open>delete_task\<close> calls
  the returned ids increase by 1 and never repeat. This fails: the next id is one more
  than the largest key present, so deleting the task with the largest id frees that id.
  From an empty store, add, add, delete 2, add returns 1, 2 and 2 again.
\<close>

theorem add_ids_repeat_counterexample:
  "returned_ids [Add ''a'' ''t1'', Add ''b'' ''t2'', Delete (KInt 2), Add ''c'' ''t3''] (init None)
     = Some [1, 2, 2]
   \<and> \<not> increasing_by_one [1, 2, 2] \<and> \<not> distinct [1, 2, 2 :: int]"
  by (simp add: init_def load_tasks_def dict_keys_def add_task_def get_next_id_def
      save_tasks_def delete_task_def returned_ids_def)

text \<open>
  C1, amended: on a store whose keys are integers, for every sequence of \<^verbatim>\<open>add_task\<close>
  and \<^verbatim>\<open>delete_task\<close> calls in which no \<^verbatim>\<open>delete_task\<close> removes the task that
  holds the largest id at that moment, every \<^verbatim>\<open>add_task\<close> returns, and the returned
  ids increase by exactly 1 from one call to the next and are pairwise different.
\<close>

theorem add_ids_increasing:
  assumes "int_keys (tasks w)" and "keeps_largest ops w"
  shows "case returned_ids ops w of
           None \<Rightarrow> False
         | Some ids \<Rightarrow> length ids = count_adds ops \<and> increasing_by_one ids \<and> distinct ids"
  using run_ids [OF assms]
  by (simp add: increasing_count_from distinct_count_from length_count_from)

theorem add_ids_increasing_witness:
  "int_keys (tasks (init None)) \<and>
   keeps_largest [Add ''buy milk'' ''t1'', Add ''walk dog'' ''t2'', Delete (KInt 1),
                  Add ''read book'' ''t3''] (init None) \<and>
   returned_ids [Add ''buy milk'' ''t1'', Add ''walk dog'' ''t2'', Delete (KInt 1),
                 Add ''read book'' ''t3''] (init None) = Some [1, 2, 3] \<and>
   (case returned_ids [Add ''buy milk'' ''t1'', Add ''walk dog'' ''t2'', Delete (KInt 1),
                 Add ''read book'' ''t3''] (init None) of
      None \<Rightarrow> False
    | Some ids \<Rightarrow> length ids = 3 \<and> increasing_by_one ids \<and> distinct ids)"
  using add_ids_increasing [of "init None"
      "[Add ''buy milk'' ''t1'', Add ''walk dog'' ''t2'', Delete (KInt 1), Add ''read book'' ''t3'']"]
  by (simp add: init_def load_tasks_def int_keys_def dict_keys_def add_task_def get_next_id_def
      save_tasks_def delete_task_def largest_key_def returned_ids_def)

subsection \<open>Saving and loading\<close>

text \<open>
  A store that was itself loaded from the file has string keys, and saving and loading it
  again gives the same dict.
\<close>

lemma json_object_str_keys:
  assumes "list_all is_str_key (dict_keys d)" and "distinct (dict_keys acc @ dict_keys d)"
  shows "json_object (map (\<lambda>p. (key_str (fst p), snd p)) d) acc = acc @ d"
  using assms
proof (induction d arbitrary: acc)
  case Nil
  then show ?case by simp
next
  case (Cons p d)
  obtain s t where p: "p = (KStr s, t)" using Cons.prems(1)
    by (cases p, cases "fst p") (auto simp: dict_keys_def)
  have absent: "\<not> dict_contains (KStr s) acc"
    using Cons.prems(2) p by (auto simp: dict_contains_iff dict_keys_def)
  have "json_object (map (\<lambda>p. (key_str (fst p), snd p)) (p # d)) acc
        = json_object (map (\<lambda>p. (key_str (fst p), snd p)) d) (acc @ [p])"
    using p absent by (simp add: dict_set_absent)
  also have "\<dots> = (acc @ [p]) @ d"
    using Cons.prems by (intro Cons.IH) (auto simp: dict_keys_def)
  finally show ?case by simp
qed

lemma reload_str_keys:
  assumes "list_all is_str_key (dict_keys (tasks w))" and "distinct (dict_keys (tasks w))"
  shows "tasks (load_tasks (save_tasks w)) = tasks w"
  using json_object_str_keys [of "tasks w" "[]"] assms
  by (simp add: load_tasks_def save_tasks_def json_dump_def dict_keys_def)

text \<open>
  C2: \<^verbatim>\<open>save_tasks\<close> followed by \<^verbatim>\<open>load_tasks\<close> in a new process should give back
  the collection that was saved, on which every operation behaves as before. The code
  does not: \<^verbatim>\<open>json.dump\<close> writes the integer key \<^verbatim>\<open>1\<close> as \<^verbatim>\<open>"1"\<close> and
  \<^verbatim>\<open>json.load\<close> returns it as a string, so the task created by
  \<^verbatim>\<open>add_task("buy milk")\<close> comes back under the key \<^verbatim>\<open>"1"\<close>, and
  \<^verbatim>\<open>update_task(1, ...)\<close>, which succeeds before the restart, reports not found after.
\<close>

theorem save_load_changes_keys:
  "add_task ''buy milk'' ''2024-05-01T09:00:00'' (init None) = Inr (1, one_task) \<and>
   tasks one_task = [(KInt 1, milk)] \<and>
   tasks (restart (save_tasks one_task)) = [(KStr ''1'', milk)] \<and>
   fst (update_task (KInt 1) ''buy oat milk'' ''2024-05-02T08:00:00'' one_task) = True \<and>
   update_task (KInt 1) ''buy oat milk'' ''2024-05-02T08:00:00'' (restart (save_tasks one_task))
     = (False, restart (save_tasks one_task))"
  by (simp add: run_defs one_task_def milk_def)

subsection \<open>Keys and id fields\<close>

text \<open>
  Starting from a store where every key is its task's id, the four mutating operations
  keep it so.
\<close>

lemma keys_match_ids_int_keys: "keys_match_ids d \<Longrightarrow> int_keys d"
  by (induction d) (auto simp: int_keys_def dict_keys_def split: if_splits)

lemma keys_match_ids_append:
  "keys_match_ids d \<Longrightarrow> k = KInt (id_field t) \<Longrightarrow> keys_match_ids (d @ [(k, t)])"
  by (induction d) (auto split: if_splits)

lemma keys_match_ids_modify:
  "keys_match_ids d \<Longrightarrow> (\<And>t. id_field (f t) = id_field t) \<Longrightarrow> keys_match_ids (dict_modify k f d)"
  by (induction d) (auto split: if_splits)

lemma keys_match_ids_del: "keys_match_ids d \<Longrightarrow> keys_match_ids (dict_del k d)"
  by (induction d) (auto split: if_splits)

lemma keys_match_ids_add_task:
  assumes "keys_match_ids (tasks w)"
  shows "\<exists>i w'. add_task descr now w = Inr (i, w') \<and> keys_match_ids (tasks w')"
  using assms add_task_ints [OF keys_match_ids_int_keys [OF assms], of descr now]
  by (simp add: keys_match_ids_append)

lemma keys_match_ids_update_task:
  "keys_match_ids (tasks w) \<Longrightarrow> keys_match_ids (tasks (snd (update_task k descr now w)))"
  by (simp add: update_task_def keys_match_ids_modify)

lemma keys_match_ids_mark_task_status:
  "keys_match_ids (tasks w) \<Longrightarrow> keys_match_ids (tasks (snd (mark_task_status k st now w)))"
  by (simp add: mark_task_status_def keys_match_ids_modify)

lemma keys_match_ids_delete_task:
  "keys_match_ids (tasks w) \<Longrightarrow> keys_match_ids (tasks (snd (delete_task k w)))"
  by (simp add: delete_task_def keys_match_ids_del)

text \<open>
  C3: in every state reachable by loading and by the mutating operations, every key
  equals the \<^verbatim>\<open>id\<close> field of its task. The code breaks this at \<^verbatim>\<open>load_tasks\<close>:
  after \<^verbatim>\<open>add_task("buy milk")\<close> the key is the integer 1, and after loading the
  file that call wrote the key is the string \<^verbatim>\<open>"1"\<close> while the field is still the
  integer 1.
\<close>

theorem reloaded_key_differs_from_id:
  "keys_match_ids (tasks one_task) \<and> \<not> keys_match_ids (tasks (load_tasks one_task))"
  by (simp add: run_defs one_task_def milk_def)

subsection \<open>Adding a task\<close>

text \<open>
  C4: \<^verbatim>\<open>add_task\<close> should succeed on every store. On a store with integer keys it
  does (\<open>add_task_ints\<close>: the id is fresh, the task is appended with status
  \<^verbatim>\<open>todo\<close> and equal timestamps). In a new process that has loaded the file with one
  task it raises \<^verbatim>\<open>TypeError\<close>, because \<^verbatim>\<open>get_next_id\<close> adds 1 to the string
  \<^verbatim>\<open>"1"\<close>.
\<close>

theorem add_task_fails_after_reload:
  "add_task ''walk dog'' ''2024-05-01T09:05:00'' one_task = Inr (2, two_tasks) \<and>
   add_task ''walk dog'' ''2024-05-01T09:05:00'' (restart one_task) = Inl TypeError"
  by (simp add: run_defs one_task_def two_tasks_def milk_def dog_def)

subsection \<open>Unknown ids\<close>

text \<open>
  C5: for an id that is not a key of the store, \<^verbatim>\<open>update_task\<close>, \<^verbatim>\<open>delete_task\<close>
  and \<^verbatim>\<open>mark_task_status\<close> each return \<^verbatim>\<open>False\<close> and leave the tracker as it
  was: the dict, the file and the number of writes. An id is not a key any more once
  \<^verbatim>\<open>delete_task\<close> has been called on it.
\<close>

theorem absent_id_rejected:
  "(\<not> dict_contains k (tasks w) \<longrightarrow>
      update_task k descr now w = (False, w) \<and>
      delete_task k w = (False, w) \<and>
      mark_task_status k st now w = (False, w)) \<and>
   \<not> dict_contains k (tasks (snd (delete_task k w)))"
  by (simp add: update_task_def delete_task_def mark_task_status_def dict_contains_del)

theorem absent_id_rejected_witness:
  "\<not> dict_contains (KInt 2) (tasks one_task) \<and>
   update_task (KInt 2) ''x'' ''2024-05-02T08:00:00'' one_task = (False, one_task) \<and>
   delete_task (KInt 2) one_task = (False, one_task) \<and>
   mark_task_status (KInt 2) ''done'' ''2024-05-02T08:00:00'' one_task = (False, one_task)"
  using absent_id_rejected [of "KInt 2" one_task "''x''" "''2024-05-02T08:00:00''" "''done''"]
  by (simp add: one_task_def)

subsection \<open>Changing the status\<close>

text \<open>
  What \<^verbatim>\<open>mark_task_status\<close> does in terms of the keys of the dict: it returns
  \<^verbatim>\<open>True\<close> exactly when the value passed as \<^verbatim>\<open>task_id\<close> is a key and the status
  is \<^verbatim>\<open>todo\<close>, \<^verbatim>\<open>in-progress\<close> or \<^verbatim>\<open>done\<close>. When it returns \<^verbatim>\<open>True\<close>, the
  task under that key is the old one with the new status and \<^verbatim>\<open>updatedAt\<close> set to
  the current time; when it returns \<^verbatim>\<open>False\<close>, nothing has changed.
\<close>

lemma mark_task_status_by_key:
  "fst (mark_task_status k st now w) = (dict_contains k (tasks w) \<and> st \<in> {''todo'', ''in-progress'', ''done''}) \<and>
   (fst (mark_task_status k st now w) \<longrightarrow>
      dict_get k (tasks (snd (mark_task_status k st now w)))
        = map_option (\<lambda>t. t\<lparr>status := st, updatedAt := now\<rparr>) (dict_get k (tasks w)) \<and>
      dict_get k (tasks w) \<noteq> None) \<and>
   (\<not> fst (mark_task_status k st now w) \<longrightarrow> snd (mark_task_status k st now w) = w)"
  by (auto simp: mark_task_status_def dict_get_modify dict_get_None_iff
      option.map_comp comp_def)

lemma mark_task_status_by_key_example:
  "fst (mark_task_status (KInt 1) ''done'' ''2024-05-02T08:00:00'' one_task) \<and>
   dict_get (KInt 1) (tasks (snd (mark_task_status (KInt 1) ''done'' ''2024-05-02T08:00:00'' one_task)))
     = Some (milk\<lparr>status := ''done'', updatedAt := ''2024-05-02T08:00:00''\<rparr>) \<and>
   \<not> fst (mark_task_status (KInt 1) ''bogus'' ''2024-05-02T08:00:00'' one_task) \<and>
   snd (mark_task_status (KInt 1) ''bogus'' ''2024-05-02T08:00:00'' one_task) = one_task"
  using mark_task_status_by_key [of "KInt 1" "''done''" "''2024-05-02T08:00:00''" one_task]
    mark_task_status_by_key [of "KInt 1" "''bogus''" "''2024-05-02T08:00:00''" one_task]
  by (simp add: one_task_def)

text \<open>
  C6: \<^verbatim>\<open>mark_task_status\<close> should return \<^verbatim>\<open>True\<close> exactly when a task with the
  given id exists and the status is one of the three recognised values. Within the
  process that created the task it does: \<^verbatim>\<open>mark_task_status(1, "done")\<close> returns
  \<^verbatim>\<open>True\<close> on the store that \<^verbatim>\<open>add_task("buy milk")\<close> left. In a new process that
  has loaded the file, the task with id 1 is still stored, but under the key
  \<^verbatim>\<open>"1"\<close>, and the same call with the valid status \<^verbatim>\<open>done\<close> returns
  \<^verbatim>\<open>False\<close> and changes nothing.
\<close>

theorem mark_task_status_fails_after_reload:
  "fst (mark_task_status (KInt 1) ''done'' ''2024-05-02T08:00:00'' one_task) = True \<and>
   dict_values (tasks (restart one_task)) = [milk] \<and>
   id_field milk = 1 \<and>
   mark_task_status (KInt 1) ''done'' ''2024-05-02T08:00:00'' (restart one_task)
     = (False, restart one_task)"
  by (simp add: run_defs dict_values_def one_task_def milk_def)

theorem mark_task_status_fails_after_reload_witness:
  "tasks (restart one_task) = [(KStr ''1'', milk)] \<and>
   fst (mark_task_status (KInt 1) ''done'' ''2024-05-02T08:00:00'' (restart one_task)) = False \<and>
   snd (mark_task_status (KInt 1) ''done'' ''2024-05-02T08:00:00'' (restart one_task))
     = restart one_task"
  using mark_task_status_fails_after_reload
  by (simp add: run_defs one_task_def)

subsection \<open>Listing\<close>

text \<open>
  C7: without a filter \<^verbatim>\<open>list_tasks\<close> returns all tasks of the store; with a filter
  \<open>s\<close> it returns the tasks whose status is \<open>s\<close>, each as often as it is stored and
  no other, in storage order.
\<close>

theorem list_tasks_filter:
  "list_tasks None w = dict_values (tasks w) \<and>
   set (list_tasks (Some s) w) = {t. t \<in> set (dict_values (tasks w)) \<and> status t = s} \<and>
   subseq (list_tasks (Some s) w) (dict_values (tasks w)) \<and>
   count_list (list_tasks (Some s) w) t
     = (if status t = s then count_list (dict_values (tasks w)) t else 0)"
proof -
  have "count_list (filter (\<lambda>t. status t = s) xs) t = (if status t = s then count_list xs t else 0)"
    for xs by (induction xs) auto
  then show ?thesis by (auto simp: list_tasks_def)
qed

text \<open>
  C10: a filter that is the status of no task in the store, recognised or not, gives the
  empty list.
\<close>

theorem list_tasks_unmatched_filter:
  assumes "\<forall>t \<in> set (dict_values (tasks w)). status t \<noteq> s"
  shows "list_tasks (Some s) w = []"
  using assms by (simp add: list_tasks_def filter_empty_conv)

theorem list_tasks_unmatched_filter_witness:
  "dict_values (tasks two_tasks) = [milk, dog] \<and>
   status milk \<noteq> ''bogus'' \<and> status dog \<noteq> ''bogus'' \<and>
   list_tasks (Some ''bogus'') two_tasks = []"
  using list_tasks_unmatched_filter [of two_tasks "''bogus''"]
  by (simp add: two_tasks_def dict_values_def milk_def dog_def)

subsection \<open>The next id\<close>

text \<open>
  C8: \<^verbatim>\<open>get_next_id\<close> should return the largest id plus 1, or 1 on an empty store,
  for every store. On a store with integer keys it does (\<open>get_next_id_ints\<close>), and as a
  function of the state it cannot change it. In a new process that has loaded the file
  with two tasks, \<^verbatim>\<open>max\<close> returns the string \<^verbatim>\<open>"2"\<close> and adding 1 to it raises
  \<^verbatim>\<open>TypeError\<close>.
\<close>

theorem get_next_id_fails_after_reload:
  "get_next_id two_tasks = Inr 3 \<and> get_next_id (restart two_tasks) = Inl TypeError"
  by (simp add: run_defs two_tasks_def milk_def dog_def)

subsection \<open>What an update leaves alone\<close>

text \<open>
  C9: for an id that is a key of the store, \<^verbatim>\<open>update_task\<close> returns \<^verbatim>\<open>True\<close> and
  replaces the task by one that differs only in \<^verbatim>\<open>description\<close> and
  \<^verbatim>\<open>updatedAt\<close>; the tasks under all other keys and the order of the keys stay as
  they were. Neither \<^verbatim>\<open>update_task\<close> nor \<^verbatim>\<open>mark_task_status\<close>, with any
  arguments, changes the \<^verbatim>\<open>createdAt\<close> of any task.
\<close>

theorem update_task_frame:
  assumes "dict_get k (tasks w) = Some t"
  shows "fst (update_task k descr now w) \<and>
         dict_get k (tasks (snd (update_task k descr now w)))
           = Some (t\<lparr>description := descr, updatedAt := now\<rparr>) \<and>
         id_field (t\<lparr>description := descr, updatedAt := now\<rparr>) = id_field t \<and>
         status (t\<lparr>description := descr, updatedAt := now\<rparr>) = status t \<and>
         createdAt (t\<lparr>description := descr, updatedAt := now\<rparr>) = createdAt t \<and>
         (\<forall>k'. k' \<noteq> k \<longrightarrow>
            dict_get k' (tasks (snd (update_task k descr now w))) = dict_get k' (tasks w)) \<and>
         dict_keys (tasks (snd (update_task k descr now w))) = dict_keys (tasks w) \<and>
         (\<forall>k' k2 descr2 st2 now2.
            map_option createdAt (dict_get k' (tasks (snd (update_task k2 descr2 now2 w))))
              = map_option createdAt (dict_get k' (tasks w)) \<and>
            map_option createdAt (dict_get k' (tasks (snd (mark_task_status k2 st2 now2 w))))
              = map_option createdAt (dict_get k' (tasks w)))"
proof -
  from assms have c: "dict_contains k (tasks w)"
    using dict_get_None_iff [of k "tasks w"] by simp
  show ?thesis using assms c
    by (simp add: update_task_def mark_task_status_def dict_get_modify dict_keys_modify
        option.map_comp comp_def)
qed

theorem update_task_frame_witness:
  "dict_get (KInt 1) (tasks two_tasks) = Some milk \<and>
   dict_get (KInt 1) (tasks (snd (update_task (KInt 1) ''buy oat milk'' ''2024-05-02T08:00:00'' two_tasks)))
     = Some (milk\<lparr>description := ''buy oat milk'', updatedAt := ''2024-05-02T08:00:00''\<rparr>) \<and>
   dict_get (KInt 2) (tasks (snd (update_task (KInt 1) ''buy oat milk'' ''2024-05-02T08:00:00'' two_tasks)))
     = Some dog"
  using update_task_frame [of "KInt 1" two_tasks milk "''buy oat milk''" "''2024-05-02T08:00:00''"]
  by (simp add: two_tasks_def)

end
